theory Spec2Isabelle
  imports Complex_Main
begin

section \<open>Data model\<close>

text \<open>
  The documents of the Mongoose models, with the fields the checkout and payment flows
  read or write. An ObjectId is a natural number. A JavaScript number that holds money
  or weight is an exact rational (no floating-point error is modelled); a quantity is an
  integer, as the cart validator requires. A date is a number of milliseconds.
  Addresses, images and notes take no part in these flows and are left out. The user
  document that \<open>populate\<close> puts in place of an order's \<open>userId\<close> is read for the
  e-mail only, so an order keeps the id; sending an e-mail writes nothing to the database,
  and where it can throw, the handler catches it.
\<close>

type_synonym objectId = nat

datatype orderStatus =
  PENDING | CONFIRMED | PROCESSING | SHIPPED | DELIVERED | CANCELLED | RETURNED

datatype paymentStatus = PAY_PENDING | PAY_COMPLETED | PAY_FAILED | PAY_REFUNDED

datatype paymentMethod = RAZORPAY | COD

record product =
  p_name :: string
  p_weight :: rat
  p_makingCharges :: rat
  p_isActive :: bool
  p_stock_quantity :: int
  p_stock_isInStock :: bool

record cartItem =
  ci_productId :: objectId
  ci_quantity :: int
  ci_price :: rat

record cart =
  c_items :: "cartItem list"

datatype discountType = PERCENTAGE | FIXED

record coupon =
  cp_code :: string
  cp_discountType :: discountType
  cp_discountValue :: rat
  cp_minOrderAmount :: rat
  cp_maxDiscountAmount :: "rat option"
  cp_usageLimit :: "int option"
  cp_usedCount :: int
  cp_isActive :: bool
  cp_validFrom :: nat
  cp_validUntil :: nat

record orderItem =
  oi_productId :: objectId
  oi_name :: string
  oi_quantity :: int
  oi_price :: rat
  oi_weight :: rat

record pricing =
  pr_subtotal :: rat
  pr_makingCharges :: rat
  pr_gst :: rat
  pr_shippingCharges :: rat
  pr_discount :: rat
  pr_total :: rat

record payment =
  pay_method :: paymentMethod
  pay_status :: paymentStatus
  pay_razorpayOrderId :: "string option"
  pay_razorpayPaymentId :: "string option"
  pay_razorpaySignature :: "string option"
  pay_paidAt :: "nat option"

record historyEntry =
  h_status :: orderStatus
  h_note :: "string option"
  h_updatedBy :: "objectId option"
  h_timestamp :: nat

record tracking =
  tr_courier :: "string option"
  tr_trackingNumber :: "string option"

record order =
  o_id :: objectId
  o_orderNumber :: string
  o_userId :: objectId
  o_items :: "orderItem list"
  o_pricing :: pricing
  o_payment :: payment
  o_status :: orderStatus
  o_statusHistory :: "historyEntry list"
  o_tracking :: tracking
  o_cancellationReason :: "string option"

text \<open>
  The database: products by \<open>_id\<close>, carts by \<open>userId\<close> (a unique field of the cart
  schema), the orders and the coupons as the lists of their documents.
\<close>

record db =
  products :: "objectId \<rightharpoonup> product"
  carts :: "objectId \<rightharpoonup> cart"
  orders :: "order list"
  coupons :: "coupon list"

text \<open>
  Every \<open>throw new ApiError(code, message)\<close> of the controllers and the payment service,
  and the errors that the error middleware turns into a response. A handler returns its
  response together with the database it leaves behind, so that a handler that writes and
  then throws keeps its write.
\<close>

datatype apiError =
    CartEmpty
  | ProductsNoLongerExist
  | ProductNoLongerAvailable string
  | InsufficientStock string int
  | InvalidOrExpiredCoupon
  | CouponUsageLimitReached
  | CouponMinimumOrderAmount rat
  | DuplicateKey string
  | OrderNotFound
  | NotAuthorized
  | InvalidPaymentSignature
  | InvalidWebhookSignature
  | FailedToProcessPayment
  | CannotRefundUnpaid
  | AlreadyRefunded
  | NoPaymentId
  | FailedToInitiateRefund
  | CannotCancel orderStatus
  | StatusRequired
  | ValidationError string
  | TypeError

fun statusCode :: "apiError \<Rightarrow> nat" where
  "statusCode OrderNotFound = 404"
| "statusCode NotAuthorized = 403"
| "statusCode FailedToProcessPayment = 500"
| "statusCode FailedToInitiateRefund = 500"
| "statusCode TypeError = 500"
| "statusCode _ = 400"

datatype 'a result = Failure apiError | Success 'a

section \<open>JavaScript helpers\<close>

definition digitChar :: "nat \<Rightarrow> char" where
  "digitChar d = (''0123456789'' ! d)"

text \<open>\<open>Number.prototype.toString()\<close> on a non-negative integer: its decimal digits.\<close>

fun toString :: "nat \<Rightarrow> string" where
  "toString n =
     (if n < 10 then [digitChar n] else toString (n div 10) @ [digitChar (n mod 10)])"

declare toString.simps [simp del]

text \<open>\<open>String.prototype.padStart(n, '0')\<close>.\<close>

definition padStart :: "nat \<Rightarrow> string \<Rightarrow> string" where
  "padStart n s = replicate (n - length s) (CHR ''0'') @ s"

text \<open>\<open>Math.round\<close>: the nearest integer, a half rounded up.\<close>

definition Math_round :: "rat \<Rightarrow> rat" where
  "Math_round x = of_int \<lfloor>x + 1 / 2\<rfloor>"

text \<open>\<open>String.prototype.toUpperCase\<close> on ASCII letters.\<close>

definition upperChar :: "char \<Rightarrow> char" where
  "upperChar c =
     (if 97 \<le> (of_char c :: nat) \<and> (of_char c :: nat) \<le> 122
      then char_of ((of_char c :: nat) - 32) else c)"

definition toUpperCase :: "string \<Rightarrow> string" where
  "toUpperCase s = map upperChar s"

section \<open>Order model hooks\<close>

text \<open>
  The hooks are taken as the model file writes them. Of the validators of the schemas,
  the one that these flows can violate is modelled (\<open>min: 0\<close> on the stock quantity, in
  \<open>product.save()\<close>); every other stored or submitted value is taken to be valid for its
  schema.

  The first \<open>pre('save')\<close> hook of the order schema: an order without a number gets
  \<open>LS\<close>, the current time in milliseconds and the number of stored orders plus one,
  padded to four digits.
\<close>

definition generateOrderNumber :: "nat \<Rightarrow> nat \<Rightarrow> string" where
  "generateOrderNumber now count = ''LS'' @ toString now @ padStart 4 (toString (count + 1))"

definition orderNumberHook :: "nat \<Rightarrow> nat \<Rightarrow> order \<Rightarrow> order" where
  "orderNumberHook now count doc =
     (if o_orderNumber doc = [] then doc\<lparr>o_orderNumber := generateOrderNumber now count\<rparr>
      else doc)"

text \<open>
  The second hook: when the status of a stored order was modified, push the new status
  to the history. \<open>isModified\<close> compares with the document as it was loaded.
\<close>

definition statusHistoryHook :: "nat \<Rightarrow> bool \<Rightarrow> bool \<Rightarrow> order \<Rightarrow> order" where
  "statusHistoryHook now isModifiedStatus isNew doc =
     (if isModifiedStatus \<and> \<not> isNew
      then doc\<lparr>o_statusHistory := o_statusHistory doc @
             [\<lparr>h_status = o_status doc, h_note = None, h_updatedBy = None, h_timestamp = now\<rparr>]\<rparr>
      else doc)"

definition replaceOrder :: "order \<Rightarrow> order list \<Rightarrow> order list" where
  "replaceOrder doc os = map (\<lambda>x. if o_id x = o_id doc then doc else x) os"

text \<open>
  \<open>order.save()\<close> on a document loaded from the database: \<open>loaded\<close> is the document as it
  was read, \<open>doc\<close> the document after the handler's assignments.
\<close>

definition Order_save :: "nat \<Rightarrow> order \<Rightarrow> order \<Rightarrow> db \<Rightarrow> order \<times> db" where
  "Order_save now loaded doc st =
     (let doc1 = orderNumberHook now (length (orders st)) doc;
          doc2 = statusHistoryHook now (o_status doc \<noteq> o_status loaded) False doc1
      in (doc2, st\<lparr>orders := replaceOrder doc2 (orders st)\<rparr>))"

text \<open>
  \<open>Order.create\<close>: the hooks run on the new document, then the insert, which the unique
  index on \<open>orderNumber\<close> rejects when the number is taken (error code 11000, answered
  with status 400 by the error middleware).
\<close>

definition Order_preSave :: "nat \<Rightarrow> order \<Rightarrow> db \<Rightarrow> order" where
  "Order_preSave now doc st =
     statusHistoryHook now True True (orderNumberHook now (length (orders st)) doc)"

definition Order_insert :: "order \<Rightarrow> db \<Rightarrow> order result \<times> db" where
  "Order_insert doc st =
     (if o_orderNumber doc \<in> set (map o_orderNumber (orders st))
      then (Failure (DuplicateKey ''orderNumber''), st)
      else (Success doc, st\<lparr>orders := orders st @ [doc]\<rparr>))"

definition Order_create :: "nat \<Rightarrow> order \<Rightarrow> db \<Rightarrow> order result \<times> db" where
  "Order_create now doc st = Order_insert (Order_preSave now doc st) st"

definition Order_findById :: "db \<Rightarrow> objectId \<Rightarrow> order option" where
  "Order_findById st i = find (\<lambda>x. o_id x = i) (orders st)"

section \<open>Checkout: createOrder\<close>

text \<open>
  The stock validation loop of \<open>createOrder\<close> over the populated cart items. It returns
  the first error, or every item with its product document.
\<close>

fun validateStock ::
  "(objectId \<rightharpoonup> product) \<Rightarrow> cartItem list \<Rightarrow> apiError + (cartItem \<times> product) list" where
  "validateStock ps [] = Inr []"
| "validateStock ps (item # rest) =
     (case ps (ci_productId item) of
        None \<Rightarrow> Inl ProductsNoLongerExist
      | Some p \<Rightarrow>
          if \<not> p_isActive p then Inl (ProductNoLongerAvailable (p_name p))
          else if p_stock_quantity p < ci_quantity item
          then Inl (InsufficientStock (p_name p) (p_stock_quantity p))
          else (case validateStock ps rest of
                  Inl e \<Rightarrow> Inl e
                | Inr xs \<Rightarrow> Inr ((item, p) # xs)))"

text \<open>
  The \<open>cart.items.map\<close> callback: it adds to the three running totals
  \<open>(subtotal, makingCharges, totalWeight)\<close> and yields the order item.
\<close>

fun accumulate ::
  "(cartItem \<times> product) list \<Rightarrow> rat \<times> rat \<times> rat \<Rightarrow> rat \<times> rat \<times> rat" where
  "accumulate [] acc = acc"
| "accumulate ((item, p) # rest) (subtotal, makingCharges, totalWeight) =
     accumulate rest
       (subtotal + ci_price item * of_int (ci_quantity item),
        makingCharges + p_makingCharges p * of_int (ci_quantity item),
        totalWeight + p_weight p * of_int (ci_quantity item))"

definition toOrderItem :: "cartItem \<times> product \<Rightarrow> orderItem" where
  "toOrderItem ip =
     \<lparr>oi_productId = ci_productId (fst ip), oi_name = p_name (snd ip),
      oi_quantity = ci_quantity (fst ip), oi_price = ci_price (fst ip),
      oi_weight = p_weight (snd ip)\<rparr>"

definition gstOf :: "rat \<Rightarrow> rat \<Rightarrow> rat" where
  "gstOf subtotal makingCharges = ((subtotal + makingCharges) * 3) / 100"

definition shippingChargesOf :: "rat \<Rightarrow> rat" where
  "shippingChargesOf totalWeight =
     (if totalWeight > 100 then 200 else if totalWeight > 50 then 150 else 100)"

text \<open>
  \<open>Coupon.findOne\<close> with the code in upper case, active, and valid at the current time.
\<close>

definition couponMatches :: "nat \<Rightarrow> string \<Rightarrow> coupon \<Rightarrow> bool" where
  "couponMatches now code c \<longleftrightarrow>
     cp_code c = toUpperCase code \<and> cp_isActive c \<and> cp_validFrom c \<le> now \<and> now \<le> cp_validUntil c"

fun updateFirst :: "('a \<Rightarrow> bool) \<Rightarrow> ('a \<Rightarrow> 'a) \<Rightarrow> 'a list \<Rightarrow> 'a list" where
  "updateFirst P f [] = []"
| "updateFirst P f (x # xs) = (if P x then f x # xs else x # updateFirst P f xs)"

text \<open>
  The coupon block of \<open>createOrder\<close>: the discount and the coupons after
  \<open>coupon.usedCount += 1; coupon.save()\<close>, or the error thrown. A limit or a maximum
  discount of \<open>null\<close> or \<open>0\<close> is falsy and does not apply.
\<close>

definition applyCoupon ::
  "nat \<Rightarrow> string \<Rightarrow> rat \<Rightarrow> coupon list \<Rightarrow> apiError + (rat \<times> coupon list)" where
  "applyCoupon now couponCode orderSubtotal cs =
     (case find (couponMatches now couponCode) cs of
        None \<Rightarrow> Inl InvalidOrExpiredCoupon
      | Some c \<Rightarrow>
          if (case cp_usageLimit c of None \<Rightarrow> False
              | Some l \<Rightarrow> l \<noteq> 0 \<and> cp_usedCount c \<ge> l)
          then Inl CouponUsageLimitReached
          else if orderSubtotal < cp_minOrderAmount c
          then Inl (CouponMinimumOrderAmount (cp_minOrderAmount c))
          else
            let discount =
              (case cp_discountType c of
                 PERCENTAGE \<Rightarrow>
                   (let d = (orderSubtotal * cp_discountValue c) / 100
                    in case cp_maxDiscountAmount c of
                         None \<Rightarrow> d
                       | Some m \<Rightarrow> if m \<noteq> 0 then min d m else d)
               | FIXED \<Rightarrow> cp_discountValue c)
            in Inr (discount,
                    updateFirst (couponMatches now couponCode)
                      (\<lambda>x. x\<lparr>cp_usedCount := cp_usedCount x + 1\<rparr>) cs))"

text \<open>\<open>if (couponCode) { ... }\<close>: an absent or empty code is falsy and leaves the discount 0.\<close>

definition couponStep ::
  "nat \<Rightarrow> string option \<Rightarrow> rat \<Rightarrow> coupon list \<Rightarrow> apiError + (rat \<times> coupon list)" where
  "couponStep now couponCode orderSubtotal cs =
     (case couponCode of
        None \<Rightarrow> Inr (0, cs)
      | Some code \<Rightarrow>
          if code = [] then Inr (0, cs) else applyCoupon now code orderSubtotal cs)"

text \<open>\<open>Math.round(x * 100) / 100\<close>.\<close>

definition round2 :: "rat \<Rightarrow> rat" where
  "round2 x = Math_round (x * 100) / 100"

text \<open>
  \<open>createOrder\<close> for the authenticated user \<open>uid\<close>. \<open>now\<close> is the clock and \<open>newId\<close> the
  ObjectId that the driver gives the new document. The notification e-mail is sent in a
  \<open>try\<close> block and changes nothing.
\<close>

definition createOrder ::
  "nat \<Rightarrow> objectId \<Rightarrow> objectId \<Rightarrow> paymentMethod \<Rightarrow> string option \<Rightarrow> db \<Rightarrow> order result \<times> db" where
  "createOrder now newId uid paymentMethod couponCode st =
     (case carts st uid of
        None \<Rightarrow> (Failure CartEmpty, st)
      | Some cart \<Rightarrow>
          if c_items cart = [] then (Failure CartEmpty, st)
          else
            (case validateStock (products st) (c_items cart) of
               Inl e \<Rightarrow> (Failure e, st)
             | Inr populated \<Rightarrow>
                 (case accumulate populated (0, 0, 0) of
                    (subtotal, makingCharges, totalWeight) \<Rightarrow>
                      let gst = gstOf subtotal makingCharges;
                          shippingCharges = shippingChargesOf totalWeight;
                          orderSubtotal = subtotal + makingCharges + gst + shippingCharges;
                          couponResult = couponStep now couponCode orderSubtotal (coupons st)
                      in (case couponResult of
                           Inl e \<Rightarrow> (Failure e, st)
                         | Inr (discount, coupons') \<Rightarrow>
                             let total = subtotal + makingCharges + gst + shippingCharges - discount
                             in Order_create now
                                  \<lparr>o_id = newId, o_orderNumber = [], o_userId = uid,
                                   o_items = map toOrderItem populated,
                                   o_pricing =
                                     \<lparr>pr_subtotal = round2 subtotal,
                                      pr_makingCharges = round2 makingCharges,
                                      pr_gst = round2 gst,
                                      pr_shippingCharges = shippingCharges,
                                      pr_discount = round2 discount,
                                      pr_total = round2 total\<rparr>,
                                   o_payment =
                                     \<lparr>pay_method = paymentMethod, pay_status = PAY_PENDING,
                                      pay_razorpayOrderId = None, pay_razorpayPaymentId = None,
                                      pay_razorpaySignature = None, pay_paidAt = None\<rparr>,
                                   o_status = PENDING, o_statusHistory = [],
                                   o_tracking = \<lparr>tr_courier = None, tr_trackingNumber = None\<rparr>,
                                   o_cancellationReason = None\<rparr>
                                  (st\<lparr>coupons := coupons'\<rparr>)))))"

section \<open>Product and cart model operations\<close>

text \<open>
  \<open>product.save()\<close>: the schema validates \<open>stock.quantity\<close> against \<open>min: 0\<close> and the
  \<open>pre('save')\<close> hook recomputes \<open>stock.isInStock\<close>. A failed validation throws and
  stores nothing (\<open>None\<close>).
\<close>

definition stockStatusHook :: "product \<Rightarrow> product" where
  "stockStatusHook p = p\<lparr>p_stock_isInStock := (p_stock_quantity p > 0)\<rparr>"

definition Product_save ::
  "objectId \<Rightarrow> product \<Rightarrow> (objectId \<rightharpoonup> product) \<Rightarrow> (objectId \<rightharpoonup> product) option" where
  "Product_save pid p ps =
     (if p_stock_quantity p < 0 then None else Some (ps(pid \<mapsto> stockStatusHook p)))"

text \<open>
  \<open>Product.findByIdAndUpdate(id, {$inc: {'stock.quantity': n}})\<close>: an update in the
  database, which runs no \<open>save\<close> hook; a missing product is left missing.
\<close>

definition Product_findByIdAndUpdate_inc ::
  "objectId \<Rightarrow> int \<Rightarrow> (objectId \<rightharpoonup> product) \<Rightarrow> (objectId \<rightharpoonup> product)" where
  "Product_findByIdAndUpdate_inc pid n ps =
     (case ps pid of
        None \<Rightarrow> ps
      | Some p \<Rightarrow> ps(pid \<mapsto> p\<lparr>p_stock_quantity := p_stock_quantity p + n\<rparr>))"

text \<open>\<open>Cart.findOneAndUpdate({userId}, {items: []})\<close>.\<close>

definition Cart_clearItems :: "objectId \<Rightarrow> (objectId \<rightharpoonup> cart) \<Rightarrow> (objectId \<rightharpoonup> cart)" where
  "Cart_clearItems uid cs =
     (case cs uid of None \<Rightarrow> cs | Some c \<Rightarrow> cs(uid \<mapsto> c\<lparr>c_items := []\<rparr>))"

text \<open>
  The stock loop of \<open>processSuccessfulPayment\<close> and of \<open>updateOrderStatus\<close>: for every
  item whose product exists, \<open>product.stock.quantity -= item.quantity; product.save()\<close>.
  The flag is False when a \<open>save\<close> threw; the products already saved stay saved.
\<close>

fun decrementStock ::
  "orderItem list \<Rightarrow> (objectId \<rightharpoonup> product) \<Rightarrow> (objectId \<rightharpoonup> product) \<times> bool" where
  "decrementStock [] ps = (ps, True)"
| "decrementStock (item # rest) ps =
     (case ps (oi_productId item) of
        None \<Rightarrow> decrementStock rest ps
      | Some p \<Rightarrow>
          (case Product_save (oi_productId item)
                  (p\<lparr>p_stock_quantity := p_stock_quantity p - oi_quantity item\<rparr>) ps of
             None \<Rightarrow> (ps, False)
           | Some ps' \<Rightarrow> decrementStock rest ps'))"

text \<open>The restore loop of \<open>initiateRefund\<close> and of \<open>cancelOrder\<close>.\<close>

fun restoreStock :: "orderItem list \<Rightarrow> (objectId \<rightharpoonup> product) \<Rightarrow> (objectId \<rightharpoonup> product)" where
  "restoreStock [] ps = ps"
| "restoreStock (item # rest) ps =
     restoreStock rest (Product_findByIdAndUpdate_inc (oi_productId item) (oi_quantity item) ps)"

section \<open>Payment service\<close>

text \<open>
  What the service takes from outside the repository: the hex HMAC-SHA256 of Node's
  \<open>crypto\<close> (key, then message), the two secrets of the environment, \<open>JSON.stringify\<close> on
  a parsed webhook object, \<open>JSON.parse\<close> on a request body, and the refund call of the
  gateway (\<open>None\<close> when it throws, else the refund id).
\<close>

record paymentEntity =
  pe_id :: string
  pe_order_id :: string
  pe_notes_orderId :: "objectId option"

record refundEntity =
  re_id :: string
  re_payment_id :: string

record webhookObject =
  wh_event :: string
  wh_payment_entity :: "paymentEntity option"
  wh_refund_entity :: "refundEntity option"

text \<open>
  \<open>req.body\<close> as a middleware left it: the Buffer of \<open>express.raw\<close> (its bytes), or the
  object of \<open>express.json\<close>.
\<close>

datatype requestBody = RawBuffer string | ParsedBody webhookObject

record env =
  hmacSha256Hex :: "string \<Rightarrow> string \<Rightarrow> string"
  RAZORPAY_KEY_SECRET :: string
  RAZORPAY_WEBHOOK_SECRET :: string
  JSON_stringify :: "webhookObject \<Rightarrow> string"
  JSON_parse :: "string \<Rightarrow> webhookObject option"
  razorpayRefund :: "string \<Rightarrow> rat \<Rightarrow> string option"

definition verifyPaymentSignature :: "env \<Rightarrow> string \<Rightarrow> string \<Rightarrow> string \<Rightarrow> bool" where
  "verifyPaymentSignature e razorpayOrderId razorpayPaymentId razorpaySignature \<longleftrightarrow>
     hmacSha256Hex e (RAZORPAY_KEY_SECRET e) (razorpayOrderId @ ''|'' @ razorpayPaymentId)
       = razorpaySignature"

fun joinComma :: "string list \<Rightarrow> string" where
  "joinComma [] = []"
| "joinComma [x] = x"
| "joinComma (x # y # rest) = x @ '','' @ joinComma (y # rest)"

text \<open>
  \<open>JSON.stringify\<close> on a Buffer: \<open>Buffer.prototype.toJSON\<close> gives
  \<open>{type: 'Buffer', data: [...]}\<close> with the bytes as numbers.
\<close>

definition Buffer_stringify :: "string \<Rightarrow> string" where
  "Buffer_stringify bytes =
     ''{\"type\":\"Buffer\",\"data\":['' @ joinComma (map (\<lambda>c. toString (of_char c)) bytes) @ '']}''"

definition stringifyBody :: "env \<Rightarrow> requestBody \<Rightarrow> string" where
  "stringifyBody e body =
     (case body of
        RawBuffer bytes \<Rightarrow> Buffer_stringify bytes
      | ParsedBody w \<Rightarrow> JSON_stringify e w)"

definition verifyWebhookSignature :: "env \<Rightarrow> requestBody \<Rightarrow> string \<Rightarrow> bool" where
  "verifyWebhookSignature e webhookBody webhookSignature \<longleftrightarrow>
     hmacSha256Hex e (RAZORPAY_WEBHOOK_SECRET e) (stringifyBody e webhookBody) = webhookSignature"

record paymentDetails =
  pd_razorpayOrderId :: string
  pd_razorpayPaymentId :: string
  pd_razorpaySignature :: string

text \<open>
  \<open>processSuccessfulPayment\<close>: the order is saved as completed and confirmed, the stock
  loop runs, the cart of the order's user is emptied. The \<open>catch\<close> turns a throw of the
  stock loop into the 500 error, after the writes already made.
\<close>

definition processSuccessfulPayment ::
  "nat \<Rightarrow> order \<Rightarrow> paymentDetails \<Rightarrow> db \<Rightarrow> order result \<times> db" where
  "processSuccessfulPayment now ord details st =
     (let ord' = ord\<lparr>o_payment := (o_payment ord)
                      \<lparr>pay_status := PAY_COMPLETED,
                       pay_razorpayOrderId := Some (pd_razorpayOrderId details),
                       pay_razorpayPaymentId := Some (pd_razorpayPaymentId details),
                       pay_razorpaySignature := Some (pd_razorpaySignature details),
                       pay_paidAt := Some now\<rparr>,
                    o_status := CONFIRMED\<rparr>;
          saved = fst (Order_save now ord ord' st);
          st1 = snd (Order_save now ord ord' st)
      in (case decrementStock (o_items saved) (products st1) of
            (ps, False) \<Rightarrow> (Failure FailedToProcessPayment, st1\<lparr>products := ps\<rparr>)
          | (ps, True) \<Rightarrow>
              (Success saved,
               st1\<lparr>products := ps, carts := Cart_clearItems (o_userId saved) (carts st1)\<rparr>)))"

section \<open>Payment controller\<close>

text \<open>\<open>verifyPayment\<close> for the authenticated user \<open>uid\<close>.\<close>

definition verifyPayment ::
  "env \<Rightarrow> nat \<Rightarrow> objectId \<Rightarrow> objectId \<Rightarrow> string \<Rightarrow> string \<Rightarrow> string \<Rightarrow> db \<Rightarrow> order result \<times> db" where
  "verifyPayment e now uid orderId razorpayOrderId razorpayPaymentId razorpaySignature st =
     (case Order_findById st orderId of
        None \<Rightarrow> (Failure OrderNotFound, st)
      | Some ord \<Rightarrow>
          if o_userId ord \<noteq> uid then (Failure NotAuthorized, st)
          else if \<not> verifyPaymentSignature e razorpayOrderId razorpayPaymentId razorpaySignature
          then (Failure InvalidPaymentSignature,
                snd (Order_save now ord
                       (ord\<lparr>o_payment := (o_payment ord)\<lparr>pay_status := PAY_FAILED\<rparr>\<rparr>) st))
          else processSuccessfulPayment now ord
                 \<lparr>pd_razorpayOrderId = razorpayOrderId, pd_razorpayPaymentId = razorpayPaymentId,
                  pd_razorpaySignature = razorpaySignature\<rparr> st)"

text \<open>
  The three webhook helpers. Each catches and logs whatever is thrown inside it, so each
  returns only the database it leaves.
\<close>

definition handlePaymentCaptured :: "nat \<Rightarrow> paymentEntity \<Rightarrow> db \<Rightarrow> db" where
  "handlePaymentCaptured now payload st =
     (case pe_notes_orderId payload of
        None \<Rightarrow> st
      | Some orderId \<Rightarrow>
          (case Order_findById st orderId of
             None \<Rightarrow> st
           | Some ord \<Rightarrow>
               if pay_status (o_payment ord) = PAY_COMPLETED then st
               else snd (processSuccessfulPayment now ord
                           \<lparr>pd_razorpayOrderId = pe_order_id payload,
                            pd_razorpayPaymentId = pe_id payload,
                            pd_razorpaySignature = []\<rparr> st)))"

definition handlePaymentFailed :: "nat \<Rightarrow> paymentEntity \<Rightarrow> db \<Rightarrow> db" where
  "handlePaymentFailed now payload st =
     (case pe_notes_orderId payload of
        None \<Rightarrow> st
      | Some orderId \<Rightarrow>
          (case Order_findById st orderId of
             None \<Rightarrow> st
           | Some ord \<Rightarrow>
               snd (Order_save now ord
                      (ord\<lparr>o_payment := (o_payment ord)\<lparr>pay_status := PAY_FAILED\<rparr>\<rparr>) st)))"

definition handleRefundProcessed :: "nat \<Rightarrow> refundEntity \<Rightarrow> db \<Rightarrow> db" where
  "handleRefundProcessed now payload st =
     (case find (\<lambda>x. pay_razorpayPaymentId (o_payment x) = Some (re_payment_id payload))
             (orders st) of
        None \<Rightarrow> st
      | Some ord \<Rightarrow>
          snd (Order_save now ord
                 (ord\<lparr>o_payment := (o_payment ord)\<lparr>pay_status := PAY_REFUNDED\<rparr>\<rparr>) st))"

text \<open>
  \<open>handleWebhook\<close>. Reading \<open>webhookBody.payload.payment\<close> on a Buffer, or on an object
  without that entity, throws a TypeError, and so does reading the refund entity of a
  \<open>refund.processed\<close> event that has none.
\<close>

definition handleWebhook :: "env \<Rightarrow> nat \<Rightarrow> requestBody \<Rightarrow> string \<Rightarrow> db \<Rightarrow> unit result \<times> db" where
  "handleWebhook e now webhookBody webhookSignature st =
     (if \<not> verifyWebhookSignature e webhookBody webhookSignature
      then (Failure InvalidWebhookSignature, st)
      else
        (case webhookBody of
           RawBuffer bytes \<Rightarrow> (Failure TypeError, st)
         | ParsedBody w \<Rightarrow>
             (case wh_payment_entity w of
                None \<Rightarrow> (Failure TypeError, st)
              | Some payload \<Rightarrow>
                  if wh_event w = ''payment.captured''
                  then (Success (), handlePaymentCaptured now payload st)
                  else if wh_event w = ''payment.failed''
                  then (Success (), handlePaymentFailed now payload st)
                  else if wh_event w = ''refund.processed''
                  then (case wh_refund_entity w of
                          None \<Rightarrow> (Failure TypeError, st)
                        | Some refund \<Rightarrow> (Success (), handleRefundProcessed now refund st))
                  else (Success (), st))))"

text \<open>A string that is \<open>undefined\<close> or empty is falsy.\<close>

definition truthy :: "string option \<Rightarrow> bool" where
  "truthy s \<longleftrightarrow> s \<noteq> None \<and> s \<noteq> Some []"

definition orElse :: "string option \<Rightarrow> string option \<Rightarrow> string option" where
  "orElse a b = (if truthy a then a else b)"

text \<open>\<open>initiateRefund\<close> (the route admits administrators only).\<close>

definition initiateRefund ::
  "env \<Rightarrow> nat \<Rightarrow> objectId \<Rightarrow> string option \<Rightarrow> db \<Rightarrow> order result \<times> db" where
  "initiateRefund e now orderId reason st =
     (case Order_findById st orderId of
        None \<Rightarrow> (Failure OrderNotFound, st)
      | Some ord \<Rightarrow>
          if pay_status (o_payment ord) \<noteq> PAY_COMPLETED then (Failure CannotRefundUnpaid, st)
          else if pay_status (o_payment ord) = PAY_REFUNDED then (Failure AlreadyRefunded, st)
          else if \<not> truthy (pay_razorpayPaymentId (o_payment ord)) then (Failure NoPaymentId, st)
          else
            (case razorpayRefund e (the (pay_razorpayPaymentId (o_payment ord)))
                    (pr_total (o_pricing ord)) of
               None \<Rightarrow> (Failure FailedToInitiateRefund, st)
             | Some refundId \<Rightarrow>
                 let ord' = ord\<lparr>o_payment := (o_payment ord)\<lparr>pay_status := PAY_REFUNDED\<rparr>,
                                o_status := CANCELLED,
                                o_cancellationReason :=
                                  orElse reason (Some ''Refund initiated by admin'')\<rparr>;
                     saved = fst (Order_save now ord ord' st);
                     st1 = snd (Order_save now ord ord' st)
                 in (Success saved,
                     st1\<lparr>products := restoreStock (o_items saved) (products st1)\<rparr>)))"

section \<open>Order controller\<close>

text \<open>The strings of \<open>ORDER_STATUS\<close> in the constants.\<close>

fun statusName :: "orderStatus \<Rightarrow> string" where
  "statusName PENDING = ''pending''"
| "statusName CONFIRMED = ''confirmed''"
| "statusName PROCESSING = ''processing''"
| "statusName SHIPPED = ''shipped''"
| "statusName DELIVERED = ''delivered''"
| "statusName CANCELLED = ''cancelled''"
| "statusName RETURNED = ''returned''"

text \<open>\<open>cancelOrder\<close> for the authenticated user \<open>uid\<close>.\<close>

definition cancelOrder ::
  "nat \<Rightarrow> objectId \<Rightarrow> objectId \<Rightarrow> string option \<Rightarrow> db \<Rightarrow> order result \<times> db" where
  "cancelOrder now uid orderId reason st =
     (case Order_findById st orderId of
        None \<Rightarrow> (Failure OrderNotFound, st)
      | Some ord \<Rightarrow>
          if o_userId ord \<noteq> uid then (Failure NotAuthorized, st)
          else if o_status ord \<in> {SHIPPED, DELIVERED, CANCELLED}
          then (Failure (CannotCancel (o_status ord)), st)
          else
            let ord' = ord\<lparr>o_status := CANCELLED,
                           o_cancellationReason := orElse reason (Some ''Cancelled by customer'')\<rparr>;
                saved = fst (Order_save now ord ord' st);
                st1 = snd (Order_save now ord ord' st)
            in if pay_status (o_payment saved) = PAY_COMPLETED
               then (Success saved, st1\<lparr>products := restoreStock (o_items saved) (products st1)\<rparr>)
               else (Success saved, st1))"

text \<open>
  \<open>updateOrderStatus\<close> by the administrator \<open>adminId\<close>. The status is one of the schema's
  values or absent. A \<open>product.save()\<close> that throws in the stock loop reaches the error
  middleware as a validation error, before the order is saved.
\<close>

definition updateOrderStatus ::
  "nat \<Rightarrow> objectId \<Rightarrow> objectId \<Rightarrow> orderStatus option \<Rightarrow> string option \<Rightarrow> string option \<Rightarrow>
   string option \<Rightarrow> db \<Rightarrow> order result \<times> db" where
  "updateOrderStatus now adminId orderId status note trackingNumber courier st =
     (case status of
        None \<Rightarrow> (Failure StatusRequired, st)
      | Some newStatus \<Rightarrow>
          (case Order_findById st orderId of
             None \<Rightarrow> (Failure OrderNotFound, st)
           | Some ord \<Rightarrow>
               let oldStatus = o_status ord;
                   ord1 = ord\<lparr>o_status := newStatus,
                           o_statusHistory := o_statusHistory ord @
                             [\<lparr>h_status = newStatus,
                               h_note = orElse note
                                 (Some (''Status changed from '' @ statusName oldStatus @
                                        '' to '' @ statusName newStatus)),
                               h_updatedBy = Some adminId, h_timestamp = now\<rparr>]\<rparr>;
                   ord2 = (if newStatus = SHIPPED \<and> (truthy trackingNumber \<or> truthy courier)
                           then ord1\<lparr>o_tracking :=
                                  \<lparr>tr_courier = orElse courier (tr_courier (o_tracking ord1)),
                                   tr_trackingNumber =
                                     orElse trackingNumber (tr_trackingNumber (o_tracking ord1))\<rparr>\<rparr>
                           else ord1)
               in if newStatus = CONFIRMED \<and> oldStatus = PENDING
                  then (case decrementStock (o_items ord2) (products st) of
                          (ps, False) \<Rightarrow>
                            (Failure (ValidationError ''stock.quantity''), st\<lparr>products := ps\<rparr>)
                        | (ps, True) \<Rightarrow>
                            (let st1 = st\<lparr>products := ps,
                                         carts := Cart_clearItems (o_userId ord2) (carts st)\<rparr>
                             in (Success (fst (Order_save now ord ord2 st1)),
                                 snd (Order_save now ord ord2 st1))))
                  else (Success (fst (Order_save now ord ord2 st)),
                        snd (Order_save now ord ord2 st))))"

section \<open>The middleware in front of the webhook route\<close>

text \<open>
  A request with its raw bytes and the body a parser has set, if any. The application
  mounts \<open>express.raw\<close> on the webhook path before \<open>express.json\<close>; a parser leaves a
  body that is already parsed alone. The webhook of the gateway is sent as JSON.
\<close>

record request =
  rq_rawBody :: string
  rq_body :: "requestBody option"

definition express_raw :: "request \<Rightarrow> request" where
  "express_raw req =
     (if rq_body req = None then req\<lparr>rq_body := Some (RawBuffer (rq_rawBody req))\<rparr> else req)"

definition express_json :: "env \<Rightarrow> request \<Rightarrow> request" where
  "express_json e req =
     (if rq_body req = None
      then req\<lparr>rq_body := map_option ParsedBody (JSON_parse e (rq_rawBody req))\<rparr>
      else req)"

definition webhookRouteMiddleware :: "env \<Rightarrow> request \<Rightarrow> request" where
  "webhookRouteMiddleware e req = express_json e (express_raw req)"

definition incoming :: "string \<Rightarrow> request" where
  "incoming bytes = \<lparr>rq_rawBody = bytes, rq_body = None\<rparr>"

section \<open>The properties as the specification words them\<close>

text \<open>
  A line item that the re-validation of checkout must reject: its product is missing,
  inactive, or has less stock than the requested quantity.
\<close>

definition lineItemInvalid :: "(objectId \<rightharpoonup> product) \<Rightarrow> cartItem \<Rightarrow> bool" where
  "lineItemInvalid ps item =
     (case ps (ci_productId item) of
        None \<Rightarrow> True
      | Some p \<Rightarrow> \<not> p_isActive p \<or> p_stock_quantity p < ci_quantity item)"

definition isLineItemError :: "apiError \<Rightarrow> bool" where
  "isLineItemError e =
     (case e of
        ProductsNoLongerExist \<Rightarrow> True
      | ProductNoLongerAvailable n \<Rightarrow> True
      | InsufficientStock n k \<Rightarrow> True
      | _ \<Rightarrow> False)"





text \<open>The quantity of a product that the items of an order hold.\<close>

definition orderedQuantity :: "orderItem list \<Rightarrow> objectId \<Rightarrow> int" where
  "orderedQuantity items pid = (\<Sum>i\<leftarrow>filter (\<lambda>i. oi_productId i = pid) items. oi_quantity i)"

text \<open>What the schemas guarantee of stored orders: a unique \<open>_id\<close> and a number.\<close>

definition ordersWellFormed :: "db \<Rightarrow> bool" where
  "ordersWellFormed st \<longleftrightarrow>
     distinct (map o_id (orders st)) \<and> list_all (\<lambda>x. o_orderNumber x \<noteq> []) (orders st)"

text \<open>The derived stock flag of the specification, on one product.\<close>

definition stockFlagOk :: "product \<Rightarrow> bool" where
  "stockFlagOk p \<longleftrightarrow> p_stock_isInStock p = (p_stock_quantity p > 0)"



section \<open>Example data\<close>

text \<open>
  The example of the specification: product A at 1000 with a making charge of 50 and a
  weight of 10 per unit, two units in the cart of user 7. User 8 asks for more units
  than are in stock. The keyed hash of the example environment stands in for
  HMAC-SHA256 in concrete evaluations only; every general theorem holds for any hash.
\<close>

definition productA :: product where
  "productA = \<lparr>p_name = ''productA'', p_weight = 10, p_makingCharges = 50, p_isActive = True,
     p_stock_quantity = 5, p_stock_isInStock = True\<rparr>"

definition exampleCart :: cart where
  "exampleCart = \<lparr>c_items = [\<lparr>ci_productId = 11, ci_quantity = 2, ci_price = 1000\<rparr>]\<rparr>"

definition greedyCart :: cart where
  "greedyCart = \<lparr>c_items = [\<lparr>ci_productId = 11, ci_quantity = 9, ci_price = 1000\<rparr>]\<rparr>"

definition exampleDb :: db where
  "exampleDb = \<lparr>products = [11 \<mapsto> productA], carts = [7 \<mapsto> exampleCart, 8 \<mapsto> greedyCart],
     orders = [], coupons = []\<rparr>"

definition exampleEnv :: env where
  "exampleEnv = \<lparr>hmacSha256Hex = (\<lambda>key msg. key @ '':'' @ msg),
     RAZORPAY_KEY_SECRET = ''key-secret'', RAZORPAY_WEBHOOK_SECRET = ''webhook-secret'',
     JSON_stringify = (\<lambda>w. wh_event w), JSON_parse = (\<lambda>s. None),
     razorpayRefund = (\<lambda>paymentId amount. Some ''rfnd_1'')\<rparr>"

definition exampleOrder :: order where
  "exampleOrder =
     \<lparr>o_id = 100, o_orderNumber = ''LS17300000000000001'', o_userId = 7,
      o_items = [\<lparr>oi_productId = 11, oi_name = ''productA'', oi_quantity = 2, oi_price = 1000,
                  oi_weight = 10\<rparr>],
      o_pricing = \<lparr>pr_subtotal = 2000, pr_makingCharges = 100, pr_gst = 63,
                   pr_shippingCharges = 100, pr_discount = 0, pr_total = 2263\<rparr>,
      o_payment = \<lparr>pay_method = RAZORPAY, pay_status = PAY_PENDING, pay_razorpayOrderId = None,
                   pay_razorpayPaymentId = None, pay_razorpaySignature = None,
                   pay_paidAt = None\<rparr>,
      o_status = PENDING, o_statusHistory = [],
      o_tracking = \<lparr>tr_courier = None, tr_trackingNumber = None\<rparr>,
      o_cancellationReason = None\<rparr>"

definition pendingDb :: db where
  "pendingDb = exampleDb\<lparr>orders := [exampleOrder]\<rparr>"

definition capturedPayload :: paymentEntity where
  "capturedPayload = \<lparr>pe_id = ''pay_1'', pe_order_id = ''order_1'', pe_notes_orderId = Some 100\<rparr>"

text \<open>The database after the webhook has reported the payment of the example order.\<close>

definition paidDb :: db where
  "paidDb = handlePaymentCaptured 1730000000500 capturedPayload pendingDb"

text \<open>The example order as the webhook leaves it.\<close>

definition paidOrder :: order where
  "paidOrder = exampleOrder
     \<lparr>o_payment := \<lparr>pay_method = RAZORPAY, pay_status = PAY_COMPLETED,
                     pay_razorpayOrderId = Some ''order_1'', pay_razorpayPaymentId = Some ''pay_1'',
                     pay_razorpaySignature = Some [], pay_paidAt = Some 1730000000500\<rparr>,
      o_status := CONFIRMED,
      o_statusHistory := [\<lparr>h_status = CONFIRMED, h_note = None, h_updatedBy = None,
                           h_timestamp = 1730000000500\<rparr>]\<rparr>"

text \<open>
  The same order when only two units of the product are left, and the database after the
  webhook has reported its payment.
\<close>

definition lastUnitsDb :: db where
  "lastUnitsDb = pendingDb\<lparr>products := [11 \<mapsto> productA\<lparr>p_stock_quantity := 2\<rparr>]\<rparr>"

definition soldOutDb :: db where
  "soldOutDb = handlePaymentCaptured 1730000000500 capturedPayload lastUnitsDb"


section \<open>Verification\<close>

subsection \<open>Checkout\<close>

lemma validateStock_invalid:
  "item \<in> set items \<Longrightarrow> lineItemInvalid ps item \<Longrightarrow>
   \<exists>e. validateStock ps items = Inl e \<and> isLineItemError e"
proof (induction items)
  case Nil
  then show ?case by simp
next
  case (Cons a items)
  show ?case
  proof (cases "lineItemInvalid ps a")
    case True
    then show ?thesis
      by (auto simp: lineItemInvalid_def isLineItemError_def split: option.splits)
  next
    case False
    with Cons.prems have "item \<in> set items" by auto
    with Cons have "\<exists>e. validateStock ps items = Inl e \<and> isLineItemError e" by blast
    with False show ?thesis
      by (auto simp: lineItemInvalid_def split: option.splits)
  qed
qed






text \<open>
  Claim C3. When the cart holds a line item whose product is missing, inactive, or has
  less stock than the requested quantity, \<open>createOrder\<close> fails with one of the three
  errors of the validation loop and returns the database as it was: no order is stored,
  no stock is changed, no coupon counter is incremented.
\<close>

theorem createOrder_invalid_line_item:
  assumes "carts st uid = Some cart"
    and "item \<in> set (c_items cart)"
    and "lineItemInvalid (products st) item"
  shows "\<exists>e. createOrder now newId uid paymentMethod couponCode st = (Failure e, st)
             \<and> isLineItemError e"
proof -
  from assms(2) have ne: "c_items cart \<noteq> []" by auto
  from validateStock_invalid [OF assms(2,3)]
  obtain e where "validateStock (products st) (c_items cart) = Inl e" "isLineItemError e"
    by blast
  with assms(1) ne show ?thesis by (simp add: createOrder_def)
qed

theorem createOrder_invalid_line_item_witness:
  "carts exampleDb 8 = Some greedyCart
   \<and> \<lparr>ci_productId = 11, ci_quantity = 9, ci_price = 1000\<rparr> \<in> set (c_items greedyCart)
   \<and> lineItemInvalid (products exampleDb) \<lparr>ci_productId = 11, ci_quantity = 9, ci_price = 1000\<rparr>
   \<and> (\<exists>e. createOrder 1730000000000 100 8 RAZORPAY (Some ''SAVE10'') exampleDb
             = (Failure e, exampleDb) \<and> isLineItemError e)"
proof -
  have c: "carts exampleDb 8 = Some greedyCart" by (simp add: exampleDb_def)
  have m: "\<lparr>ci_productId = 11, ci_quantity = 9, ci_price = 1000\<rparr> \<in> set (c_items greedyCart)"
    by (simp add: greedyCart_def)
  have i: "lineItemInvalid (products exampleDb)
             \<lparr>ci_productId = 11, ci_quantity = 9, ci_price = 1000\<rparr>"
    by (simp add: lineItemInvalid_def exampleDb_def productA_def)
  from createOrder_invalid_line_item [OF c m i] c m i show ?thesis by blast
qed

subsection \<open>Saving and finding orders\<close>

lemma findById_Some:
  "Order_findById st i = Some ord \<Longrightarrow> o_id ord = i \<and> ord \<in> set (orders st)"
  by (auto simp: Order_findById_def find_Some_iff in_set_conv_nth)

lemma wellFormed_number:
  "ordersWellFormed st \<Longrightarrow> ord \<in> set (orders st) \<Longrightarrow> o_orderNumber ord \<noteq> []"
  by (auto simp: ordersWellFormed_def list_all_iff)

lemma Order_save_same_status:
  "o_orderNumber doc \<noteq> [] \<Longrightarrow> o_status doc = o_status loaded \<Longrightarrow>
   Order_save now loaded doc st = (doc, st\<lparr>orders := replaceOrder doc (orders st)\<rparr>)"
  by (simp add: Order_save_def orderNumberHook_def statusHistoryHook_def)

lemma Order_save_new_status:
  "o_orderNumber doc \<noteq> [] \<Longrightarrow> o_status doc \<noteq> o_status loaded \<Longrightarrow>
   Order_save now loaded doc st =
     (doc\<lparr>o_statusHistory := o_statusHistory doc @
        [\<lparr>h_status = o_status doc, h_note = None, h_updatedBy = None, h_timestamp = now\<rparr>]\<rparr>,
      st\<lparr>orders := replaceOrder
         (doc\<lparr>o_statusHistory := o_statusHistory doc @
            [\<lparr>h_status = o_status doc, h_note = None, h_updatedBy = None, h_timestamp = now\<rparr>]\<rparr>)
         (orders st)\<rparr>)"
  by (simp add: Order_save_def orderNumberHook_def statusHistoryHook_def Let_def)

lemma find_replaceOrder:
  "ord \<in> set os \<Longrightarrow> o_id d = o_id ord \<Longrightarrow>
   find (\<lambda>x. o_id x = o_id ord) (replaceOrder d os) = Some d"
  by (induction os) (auto simp: replaceOrder_def)

lemma replaceOrder_frame:
  assumes "distinct (map o_id os)" and "ord \<in> set os" and "o_id d = o_id ord"
    and "f d = f ord"
  shows "map f (replaceOrder d os) = map f os"
proof -
  have "f (if o_id x = o_id d then d else x) = f x" if "x \<in> set os" for x
  proof (cases "o_id x = o_id d")
    case True
    with assms(1,2,3) that have "x = ord" by (auto simp: distinct_map dest: inj_onD)
    with True assms(4) show ?thesis by simp
  next
    case False
    then show ?thesis by simp
  qed
  then show ?thesis by (simp add: replaceOrder_def)
qed

lemma replaceOrder_pointwise:
  assumes "distinct (map o_id os)" and "ord \<in> set os" and "o_id d = o_id ord"
    and "R ord d" and "\<And>x. R x x"
  shows "list_all2 R os (replaceOrder d os)"
proof -
  have "R x (if o_id x = o_id d then d else x)" if "x \<in> set os" for x
  proof (cases "o_id x = o_id d")
    case True
    with assms(1,2,3) that have "x = ord" by (auto simp: distinct_map dest: inj_onD)
    with True assms(4) show ?thesis by simp
  next
    case False
    with assms(5) show ?thesis by simp
  qed
  then show ?thesis by (simp add: replaceOrder_def list_all2_map2 list_all2_same)
qed

text \<open>
  Claim C5. For a stored order of the requesting user whose payment is pending, a payment
  signature that does not verify makes \<open>verifyPayment\<close> answer with the signature error
  and store the order with payment status failed; the status of every order, the
  products and the carts stay as they were. A webhook signature that does not verify
  makes \<open>handleWebhook\<close> answer with its error and leave the whole database as it was.
\<close>

theorem invalid_signatures_rejected:
  "(ordersWellFormed st \<and> Order_findById st orderId = Some ord \<and> o_userId ord = uid
      \<and> pay_status (o_payment ord) = PAY_PENDING
      \<and> \<not> verifyPaymentSignature e razorpayOrderId razorpayPaymentId razorpaySignature
    \<longrightarrow> (\<exists>st'. verifyPayment e now uid orderId razorpayOrderId razorpayPaymentId
                  razorpaySignature st = (Failure InvalidPaymentSignature, st')
            \<and> Order_findById st' orderId
                = Some (ord\<lparr>o_payment := (o_payment ord)\<lparr>pay_status := PAY_FAILED\<rparr>\<rparr>)
            \<and> map o_status (orders st') = map o_status (orders st)
            \<and> products st' = products st \<and> carts st' = carts st))
   \<and> (\<not> verifyWebhookSignature e webhookBody webhookSignature
      \<longrightarrow> handleWebhook e now webhookBody webhookSignature st
            = (Failure InvalidWebhookSignature, st))"
proof (intro conjI impI)
  assume a: "ordersWellFormed st \<and> Order_findById st orderId = Some ord \<and> o_userId ord = uid
      \<and> pay_status (o_payment ord) = PAY_PENDING
      \<and> \<not> verifyPaymentSignature e razorpayOrderId razorpayPaymentId razorpaySignature"
  let ?failed = "ord\<lparr>o_payment := (o_payment ord)\<lparr>pay_status := PAY_FAILED\<rparr>\<rparr>"
  let ?st' = "st\<lparr>orders := replaceOrder ?failed (orders st)\<rparr>"
  from a have mem: "o_id ord = orderId" "ord \<in> set (orders st)"
    using findById_Some by blast+
  from a mem wellFormed_number [of st ord] have num: "o_orderNumber ?failed \<noteq> []" by simp
  have save: "Order_save now ord ?failed st = (?failed, ?st')"
    using num by (simp add: Order_save_same_status)
  have run: "verifyPayment e now uid orderId razorpayOrderId razorpayPaymentId
               razorpaySignature st = (Failure InvalidPaymentSignature, ?st')"
    using a save by (simp add: verifyPayment_def)
  have found: "Order_findById ?st' orderId = Some ?failed"
    using find_replaceOrder [OF mem(2), of ?failed] mem(1) by (simp add: Order_findById_def)
  have frame: "map o_status (orders ?st') = map o_status (orders st)"
    using a mem(2) by (simp add: replaceOrder_frame ordersWellFormed_def)
  from run found frame
  show "\<exists>st'. verifyPayment e now uid orderId razorpayOrderId razorpayPaymentId
                  razorpaySignature st = (Failure InvalidPaymentSignature, st')
            \<and> Order_findById st' orderId = Some ?failed
            \<and> map o_status (orders st') = map o_status (orders st)
            \<and> products st' = products st \<and> carts st' = carts st"
    by (intro exI [of _ ?st']) simp
next
  assume "\<not> verifyWebhookSignature e webhookBody webhookSignature"
  then show "handleWebhook e now webhookBody webhookSignature st
            = (Failure InvalidWebhookSignature, st)"
    by (simp add: handleWebhook_def)
qed

lemma pendingDb_wellFormed: "ordersWellFormed pendingDb"
  by (simp add: ordersWellFormed_def pendingDb_def exampleDb_def exampleOrder_def)

lemma pendingDb_find: "Order_findById pendingDb 100 = Some exampleOrder"
  by (simp add: Order_findById_def pendingDb_def exampleDb_def exampleOrder_def)

theorem invalid_signatures_rejected_witness:
  "(ordersWellFormed pendingDb \<and> Order_findById pendingDb 100 = Some exampleOrder
      \<and> o_userId exampleOrder = 7 \<and> pay_status (o_payment exampleOrder) = PAY_PENDING
      \<and> \<not> verifyPaymentSignature exampleEnv ''order_1'' ''pay_1'' ''forged'')
   \<and> (\<exists>st'. verifyPayment exampleEnv 1730000000500 7 100 ''order_1'' ''pay_1'' ''forged'' pendingDb
               = (Failure InvalidPaymentSignature, st')
          \<and> Order_findById st' 100
              = Some (exampleOrder\<lparr>o_payment := (o_payment exampleOrder)\<lparr>pay_status := PAY_FAILED\<rparr>\<rparr>)
          \<and> map o_status (orders st') = map o_status (orders pendingDb)
          \<and> products st' = products pendingDb \<and> carts st' = carts pendingDb)
   \<and> \<not> verifyWebhookSignature exampleEnv (RawBuffer ''{}'') ''forged''
   \<and> handleWebhook exampleEnv 1730000000500 (RawBuffer ''{}'') ''forged'' pendingDb
       = (Failure InvalidWebhookSignature, pendingDb)"
proof -
  have h1: "ordersWellFormed pendingDb \<and> Order_findById pendingDb 100 = Some exampleOrder
      \<and> o_userId exampleOrder = 7 \<and> pay_status (o_payment exampleOrder) = PAY_PENDING
      \<and> \<not> verifyPaymentSignature exampleEnv ''order_1'' ''pay_1'' ''forged''"
    by (simp add: pendingDb_wellFormed pendingDb_find)
       (simp add: exampleOrder_def verifyPaymentSignature_def exampleEnv_def)
  have h2: "\<not> verifyWebhookSignature exampleEnv (RawBuffer ''{}'') ''forged''"
    by (simp add: verifyWebhookSignature_def exampleEnv_def)
  from invalid_signatures_rejected [where st = pendingDb and orderId = 100
      and ord = exampleOrder and uid = 7 and e = exampleEnv and razorpayOrderId = "''order_1''"
      and razorpayPaymentId = "''pay_1''" and razorpaySignature = "''forged''"
      and now = 1730000000500 and webhookBody = "RawBuffer ''{}''"
      and webhookSignature = "''forged''"] h1 h2
  show ?thesis by blast
qed

text \<open>
  Claim C10. \<open>handleRefundProcessed\<close> leaves the products, the carts and the coupons as
  they were; every stored order is as before or differs only in a payment status set
  to refunded, so the status, the items and the history of every order are unchanged;
  and the order found by the payment id of the gateway is stored with payment status
  refunded.
\<close>

theorem handleRefundProcessed_frame:
  assumes wf: "ordersWellFormed st"
    and run: "st' = handleRefundProcessed now payload st"
  shows "products st' = products st \<and> carts st' = carts st \<and> coupons st' = coupons st
     \<and> list_all2 (\<lambda>old new. new = old
                     \<or> new = old\<lparr>o_payment := (o_payment old)\<lparr>pay_status := PAY_REFUNDED\<rparr>\<rparr>)
          (orders st) (orders st')
     \<and> map o_status (orders st') = map o_status (orders st)
     \<and> map o_items (orders st') = map o_items (orders st)
     \<and> map o_statusHistory (orders st') = map o_statusHistory (orders st)
     \<and> (\<forall>ord. find (\<lambda>x. pay_razorpayPaymentId (o_payment x) = Some (re_payment_id payload))
                 (orders st) = Some ord
           \<longrightarrow> Order_findById st' (o_id ord)
                = Some (ord\<lparr>o_payment := (o_payment ord)\<lparr>pay_status := PAY_REFUNDED\<rparr>\<rparr>))"
proof (cases "find (\<lambda>x. pay_razorpayPaymentId (o_payment x) = Some (re_payment_id payload))
                (orders st)")
  case None
  with run have "st' = st" by (simp add: handleRefundProcessed_def)
  with None show ?thesis by (simp add: list_all2_same)
next
  case (Some ord)
  let ?d = "ord\<lparr>o_payment := (o_payment ord)\<lparr>pay_status := PAY_REFUNDED\<rparr>\<rparr>"
  from Some have mem: "ord \<in> set (orders st)"
    by (auto simp: find_Some_iff in_set_conv_nth)
  from wf have dist: "distinct (map o_id (orders st))" by (simp add: ordersWellFormed_def)
  from wellFormed_number [OF wf mem] have "o_orderNumber ?d \<noteq> []" by simp
  then have save: "Order_save now ord ?d st = (?d, st\<lparr>orders := replaceOrder ?d (orders st)\<rparr>)"
    by (simp add: Order_save_same_status)
  with run Some have st': "st' = st\<lparr>orders := replaceOrder ?d (orders st)\<rparr>"
    by (simp add: handleRefundProcessed_def)
  have pw: "list_all2 (\<lambda>old new. new = old
                     \<or> new = old\<lparr>o_payment := (o_payment old)\<lparr>pay_status := PAY_REFUNDED\<rparr>\<rparr>)
          (orders st) (replaceOrder ?d (orders st))"
    by (rule replaceOrder_pointwise [OF dist mem]) simp_all
  have fr: "map o_status (replaceOrder ?d (orders st)) = map o_status (orders st)"
    "map o_items (replaceOrder ?d (orders st)) = map o_items (orders st)"
    "map o_statusHistory (replaceOrder ?d (orders st)) = map o_statusHistory (orders st)"
    using dist mem by (simp_all add: replaceOrder_frame)
  have fd: "Order_findById st' (o_id ord) = Some ?d"
    using find_replaceOrder [OF mem, of ?d] by (simp add: st' Order_findById_def)
  from pw fr fd Some show ?thesis by (simp add: st')
qed

lemma Order_save_shape:
  assumes "o_orderNumber doc \<noteq> []"
  shows "\<exists>h. Order_save now loaded doc st =
           (doc\<lparr>o_statusHistory := h\<rparr>,
            st\<lparr>orders := replaceOrder (doc\<lparr>o_statusHistory := h\<rparr>) (orders st)\<rparr>)"
proof (cases "o_status doc = o_status loaded")
  case True
  with assms have "Order_save now loaded doc st =
      (doc\<lparr>o_statusHistory := o_statusHistory doc\<rparr>,
       st\<lparr>orders := replaceOrder (doc\<lparr>o_statusHistory := o_statusHistory doc\<rparr>) (orders st)\<rparr>)"
    by (simp add: Order_save_same_status)
  then show ?thesis by blast
next
  case False
  with assms show ?thesis
    by (intro exI [of _ "o_statusHistory doc @
          [\<lparr>h_status = o_status doc, h_note = None, h_updatedBy = None, h_timestamp = now\<rparr>]"])
       (simp add: Order_save_new_status)
qed

lemma restoreStock_apply:
  "restoreStock items ps pid =
     map_option (\<lambda>p. p\<lparr>p_stock_quantity := p_stock_quantity p + orderedQuantity items pid\<rparr>)
       (ps pid)"
proof (induction items arbitrary: ps)
  case Nil
  show ?case by (cases "ps pid") (simp_all add: orderedQuantity_def)
next
  case (Cons item rest)
  show ?case
    by (cases "ps pid"; cases "ps (oi_productId item)")
       (auto simp: Cons Product_findByIdAndUpdate_inc_def orderedQuantity_def algebra_simps)
qed

text \<open>
  Claim C6. For a stored order whose payment is completed and carries a gateway payment
  id, when the refund call of the gateway succeeds, \<open>initiateRefund\<close> stores the order
  with payment status refunded and status cancelled, and the stock quantity of every
  product grows by exactly the quantity that the items of the order hold of it; the
  carts are unchanged.
\<close>

theorem initiateRefund_restores_stock:
  assumes wf: "ordersWellFormed st"
    and found: "Order_findById st orderId = Some ord"
    and paid: "pay_status (o_payment ord) = PAY_COMPLETED"
    and pid: "pay_razorpayPaymentId (o_payment ord) = Some paymentId" "paymentId \<noteq> []"
    and gw: "razorpayRefund e paymentId (pr_total (o_pricing ord)) = Some refundId"
  shows "\<exists>saved st'. initiateRefund e now orderId reason st = (Success saved, st')
      \<and> Order_findById st' orderId = Some saved
      \<and> pay_status (o_payment saved) = PAY_REFUNDED \<and> o_status saved = CANCELLED
      \<and> o_items saved = o_items ord
      \<and> (\<forall>p. products st' p =
             map_option (\<lambda>x. x\<lparr>p_stock_quantity :=
                                p_stock_quantity x + orderedQuantity (o_items ord) p\<rparr>)
               (products st p))
      \<and> carts st' = carts st"
proof -
  let ?d = "ord\<lparr>o_payment := (o_payment ord)\<lparr>pay_status := PAY_REFUNDED\<rparr>,
                 o_status := CANCELLED,
                 o_cancellationReason := orElse reason (Some ''Refund initiated by admin'')\<rparr>"
  from found have mem: "o_id ord = orderId" "ord \<in> set (orders st)"
    using findById_Some by blast+
  from wellFormed_number [OF wf mem(2)] have "o_orderNumber ?d \<noteq> []" by simp
  from Order_save_shape [OF this, of now ord st]
  obtain h where save: "Order_save now ord ?d st =
      (?d\<lparr>o_statusHistory := h\<rparr>,
       st\<lparr>orders := replaceOrder (?d\<lparr>o_statusHistory := h\<rparr>) (orders st)\<rparr>)"
    by blast
  let ?saved = "?d\<lparr>o_statusHistory := h\<rparr>"
  let ?st' = "st\<lparr>orders := replaceOrder ?saved (orders st),
                 products := restoreStock (o_items ord) (products st)\<rparr>"
  have run: "initiateRefund e now orderId reason st = (Success ?saved, ?st')"
    using found paid pid gw save by (simp add: initiateRefund_def truthy_def Let_def)
  have fd: "Order_findById ?st' orderId = Some ?saved"
    using find_replaceOrder [OF mem(2), of ?saved] mem(1) by (simp add: Order_findById_def)
  show ?thesis
    by (intro exI [of _ ?saved] exI [of _ ?st']) (simp add: run fd restoreStock_apply del: db.simps)
qed

subsection \<open>The paid example\<close>

lemma paidDb_orders: "orders paidDb = [paidOrder]"
  by (simp add: paidDb_def handlePaymentCaptured_def capturedPayload_def pendingDb_find
      processSuccessfulPayment_def Order_save_def orderNumberHook_def statusHistoryHook_def
      replaceOrder_def Let_def Product_save_def stockStatusHook_def paidOrder_def)
     (simp add: exampleOrder_def pendingDb_def exampleDb_def productA_def Product_save_def
      stockStatusHook_def)

lemma paidDb_products:
  "products paidDb 11 = Some (productA\<lparr>p_stock_quantity := 3\<rparr>)"
  by (simp add: paidDb_def handlePaymentCaptured_def capturedPayload_def pendingDb_find
      processSuccessfulPayment_def Order_save_def orderNumberHook_def statusHistoryHook_def
      replaceOrder_def Let_def Product_save_def stockStatusHook_def)
     (simp add: exampleOrder_def pendingDb_def exampleDb_def productA_def Product_save_def
      stockStatusHook_def)

lemma paidDb_carts:
  "carts paidDb 7 = Some \<lparr>c_items = []\<rparr>"
  by (simp add: paidDb_def handlePaymentCaptured_def capturedPayload_def pendingDb_find
      processSuccessfulPayment_def Order_save_def orderNumberHook_def statusHistoryHook_def
      replaceOrder_def Let_def Product_save_def stockStatusHook_def)
     (simp add: exampleOrder_def pendingDb_def exampleDb_def productA_def Product_save_def
      stockStatusHook_def Cart_clearItems_def)

lemma paidDb_find: "Order_findById paidDb 100 = Some paidOrder"
  by (simp add: Order_findById_def paidDb_orders) (simp add: paidOrder_def exampleOrder_def)

lemma paidDb_wellFormed: "ordersWellFormed paidDb"
  by (simp add: ordersWellFormed_def paidDb_orders) (simp add: paidOrder_def exampleOrder_def)

lemma handlePaymentCaptured_completed:
  "pe_notes_orderId payload = Some orderId \<Longrightarrow> Order_findById st orderId = Some ord \<Longrightarrow>
   pay_status (o_payment ord) = PAY_COMPLETED \<Longrightarrow> handlePaymentCaptured now payload st = st"
  by (simp add: handlePaymentCaptured_def)

lemma verifyPayment_completed_reprocesses:
  "Order_findById st orderId = Some ord \<Longrightarrow> o_userId ord = uid \<Longrightarrow>
   verifyPaymentSignature e razorpayOrderId razorpayPaymentId razorpaySignature \<Longrightarrow>
   verifyPayment e now uid orderId razorpayOrderId razorpayPaymentId razorpaySignature st =
     processSuccessfulPayment now ord
       \<lparr>pd_razorpayOrderId = razorpayOrderId, pd_razorpayPaymentId = razorpayPaymentId,
        pd_razorpaySignature = razorpaySignature\<rparr> st"
  by (simp add: verifyPayment_def)

text \<open>
  Claim C1, evaluated at a duplicate delivery. The example order is paid through the
  webhook: the stock of its product goes from 5 to 3 and the payment is completed. A
  second delivery of the webhook changes nothing. A synchronous verification of the same
  payment, with a valid signature, is processed again: \<open>verifyPayment\<close> has no check of
  the payment status, and the stock goes down to 1.
\<close>

theorem verifyPayment_after_webhook_decrements_again:
  "p_stock_quantity (the (products pendingDb 11)) = 5
   \<and> pay_status (o_payment (the (Order_findById paidDb 100))) = PAY_COMPLETED
   \<and> p_stock_quantity (the (products paidDb 11)) = 3
   \<and> handlePaymentCaptured 1730000000900 capturedPayload paidDb = paidDb
   \<and> verifyPaymentSignature exampleEnv ''order_1'' ''pay_1'' ''key-secret:order_1|pay_1''
   \<and> (\<exists>ord st'. verifyPayment exampleEnv 1730000000900 7 100 ''order_1'' ''pay_1''
                    ''key-secret:order_1|pay_1'' paidDb = (Success ord, st')
          \<and> p_stock_quantity (the (products st' 11)) = 1)"
proof -
  have a: "p_stock_quantity (the (products pendingDb 11)) = 5"
    by (simp add: pendingDb_def exampleDb_def productA_def)
  have b: "pay_status (o_payment (the (Order_findById paidDb 100))) = PAY_COMPLETED"
    by (simp add: paidDb_find paidOrder_def)
  have c: "p_stock_quantity (the (products paidDb 11)) = 3"
    by (simp add: paidDb_products)
  have d: "handlePaymentCaptured 1730000000900 capturedPayload paidDb = paidDb"
    by (rule handlePaymentCaptured_completed [OF _ paidDb_find])
       (simp_all add: capturedPayload_def paidOrder_def)
  have s: "verifyPaymentSignature exampleEnv ''order_1'' ''pay_1'' ''key-secret:order_1|pay_1''"
    by (simp add: verifyPaymentSignature_def exampleEnv_def)
  have u: "o_userId paidOrder = 7" by (simp add: paidOrder_def exampleOrder_def)
  have v: "verifyPayment exampleEnv 1730000000900 7 100 ''order_1'' ''pay_1''
             ''key-secret:order_1|pay_1'' paidDb
           = processSuccessfulPayment 1730000000900 paidOrder
               \<lparr>pd_razorpayOrderId = ''order_1'', pd_razorpayPaymentId = ''pay_1'',
                pd_razorpaySignature = ''key-secret:order_1|pay_1''\<rparr> paidDb"
    by (rule verifyPayment_completed_reprocesses [OF paidDb_find u s])
  have i: "o_items paidOrder = [\<lparr>oi_productId = 11, oi_name = ''productA'', oi_quantity = 2,
             oi_price = 1000, oi_weight = 10\<rparr>]"
    by (simp add: paidOrder_def exampleOrder_def)
  have n: "o_orderNumber paidOrder \<noteq> []" by (simp add: paidOrder_def exampleOrder_def)
  have e: "\<exists>ord st'. processSuccessfulPayment 1730000000900 paidOrder
               \<lparr>pd_razorpayOrderId = ''order_1'', pd_razorpayPaymentId = ''pay_1'',
                pd_razorpaySignature = ''key-secret:order_1|pay_1''\<rparr> paidDb = (Success ord, st')
          \<and> p_stock_quantity (the (products st' 11)) = 1"
    using n by (simp add: processSuccessfulPayment_def Order_save_def orderNumberHook_def
        statusHistoryHook_def Let_def i paidDb_products Product_save_def stockStatusHook_def
        productA_def)
  from a b c d s e show ?thesis by (simp only: v)
qed

theorem initiateRefund_restores_stock_witness:
  "(ordersWellFormed paidDb \<and> Order_findById paidDb 100 = Some paidOrder
      \<and> pay_status (o_payment paidOrder) = PAY_COMPLETED
      \<and> pay_razorpayPaymentId (o_payment paidOrder) = Some ''pay_1'' \<and> ''pay_1'' \<noteq> []
      \<and> razorpayRefund exampleEnv ''pay_1'' (pr_total (o_pricing paidOrder)) = Some ''rfnd_1'')
   \<and> (\<exists>saved st'. initiateRefund exampleEnv 1730000001000 100 None paidDb = (Success saved, st')
          \<and> pay_status (o_payment saved) = PAY_REFUNDED \<and> o_status saved = CANCELLED
          \<and> p_stock_quantity (the (products paidDb 11)) = 3
          \<and> orderedQuantity (o_items paidOrder) 11 = 2
          \<and> p_stock_quantity (the (products st' 11)) = 5)"
proof -
  have p: "pay_status (o_payment paidOrder) = PAY_COMPLETED"
    and i: "pay_razorpayPaymentId (o_payment paidOrder) = Some ''pay_1''"
    and n: "''pay_1'' \<noteq> []"
    and g: "razorpayRefund exampleEnv ''pay_1'' (pr_total (o_pricing paidOrder)) = Some ''rfnd_1''"
    and q: "orderedQuantity (o_items paidOrder) 11 = 2"
    by (simp_all add: paidOrder_def exampleOrder_def exampleEnv_def orderedQuantity_def)
  from initiateRefund_restores_stock [OF paidDb_wellFormed paidDb_find p i n g,
      of 1730000001000 None]
  obtain saved st' where
    r: "initiateRefund exampleEnv 1730000001000 100 None paidDb = (Success saved, st')"
      "pay_status (o_payment saved) = PAY_REFUNDED" "o_status saved = CANCELLED"
      "\<forall>p. products st' p =
             map_option (\<lambda>x. x\<lparr>p_stock_quantity :=
                                p_stock_quantity x + orderedQuantity (o_items paidOrder) p\<rparr>)
               (products paidDb p)"
    by blast
  from r(4) have "p_stock_quantity (the (products st' 11)) = 5"
    by (simp add: paidDb_products q productA_def)
  with r(1-3) p i n g q paidDb_wellFormed paidDb_find show ?thesis
    by (simp add: paidDb_products)
qed

lemma paidDb_findByPayment:
  "find (\<lambda>x. pay_razorpayPaymentId (o_payment x) = Some ''pay_1'') (orders paidDb) = Some paidOrder"
  by (simp add: paidDb_orders) (simp add: paidOrder_def)

theorem handleRefundProcessed_frame_witness:
  "ordersWellFormed paidDb
   \<and> products (handleRefundProcessed 1730000002000 \<lparr>re_id = ''rfnd_1'', re_payment_id = ''pay_1''\<rparr> paidDb)
       = products paidDb
   \<and> carts (handleRefundProcessed 1730000002000 \<lparr>re_id = ''rfnd_1'', re_payment_id = ''pay_1''\<rparr> paidDb)
       = carts paidDb
   \<and> map o_status (orders (handleRefundProcessed 1730000002000
                              \<lparr>re_id = ''rfnd_1'', re_payment_id = ''pay_1''\<rparr> paidDb))
       = [CONFIRMED]
   \<and> Order_findById (handleRefundProcessed 1730000002000
                        \<lparr>re_id = ''rfnd_1'', re_payment_id = ''pay_1''\<rparr> paidDb) 100
       = Some (paidOrder\<lparr>o_payment := (o_payment paidOrder)\<lparr>pay_status := PAY_REFUNDED\<rparr>\<rparr>)"
proof -
  have s: "map o_status (orders paidDb) = [CONFIRMED]" "o_id paidOrder = 100"
    by (simp_all add: paidDb_orders) (simp_all add: paidOrder_def exampleOrder_def)
  from handleRefundProcessed_frame [OF paidDb_wellFormed refl,
      of 1730000002000 "\<lparr>re_id = ''rfnd_1'', re_payment_id = ''pay_1''\<rparr>"]
    paidDb_findByPayment s paidDb_wellFormed
  show ?thesis by simp
qed

text \<open>
  Claim C7, on the administrator's update. When \<open>updateOrderStatus\<close> changes the status
  of a stored order (other than the confirmation of a pending order, which also runs the
  stock loop), the stored history is the old history followed by two entries for the
  one transition: the entry that the controller pushes and the entry that the
  \<open>pre('save')\<close> hook pushes. No earlier entry is removed or changed.
\<close>

theorem updateOrderStatus_appends_two_entries:
  assumes wf: "ordersWellFormed st"
    and found: "Order_findById st orderId = Some ord"
    and changed: "newStatus \<noteq> o_status ord"
    and noStock: "\<not> (newStatus = CONFIRMED \<and> o_status ord = PENDING)"
  shows "\<exists>saved st'. updateOrderStatus now adminId orderId (Some newStatus) note trackingNumber
                        courier st = (Success saved, st')
      \<and> Order_findById st' orderId = Some saved
      \<and> o_statusHistory saved = o_statusHistory ord @
           [\<lparr>h_status = newStatus,
             h_note = orElse note (Some (''Status changed from '' @ statusName (o_status ord) @
                                         '' to '' @ statusName newStatus)),
             h_updatedBy = Some adminId, h_timestamp = now\<rparr>,
            \<lparr>h_status = newStatus, h_note = None, h_updatedBy = None, h_timestamp = now\<rparr>]"
proof -
  let ?e1 = "\<lparr>h_status = newStatus,
             h_note = orElse note (Some (''Status changed from '' @ statusName (o_status ord) @
                                         '' to '' @ statusName newStatus)),
             h_updatedBy = Some adminId, h_timestamp = now\<rparr>"
  let ?e2 = "\<lparr>h_status = newStatus, h_note = None, h_updatedBy = None, h_timestamp = now\<rparr>"
  let ?ord1 = "ord\<lparr>o_status := newStatus, o_statusHistory := o_statusHistory ord @ [?e1]\<rparr>"
  let ?T = "if newStatus = SHIPPED \<and> (truthy trackingNumber \<or> truthy courier)
            then \<lparr>tr_courier = orElse courier (tr_courier (o_tracking ord)),
                  tr_trackingNumber = orElse trackingNumber (tr_trackingNumber (o_tracking ord))\<rparr>
            else o_tracking ord"
  let ?ord2 = "?ord1\<lparr>o_tracking := ?T\<rparr>"
  have eq: "(if newStatus = SHIPPED \<and> (truthy trackingNumber \<or> truthy courier)
             then ?ord1\<lparr>o_tracking :=
                    \<lparr>tr_courier = orElse courier (tr_courier (o_tracking ?ord1)),
                     tr_trackingNumber =
                       orElse trackingNumber (tr_trackingNumber (o_tracking ?ord1))\<rparr>\<rparr>
             else ?ord1) = ?ord2"
    by (cases ord) auto
  from found have mem: "o_id ord = orderId" "ord \<in> set (orders st)"
    using findById_Some by blast+
  from wellFormed_number [OF wf mem(2)] have num: "o_orderNumber ?ord2 \<noteq> []" by simp
  from changed have ch: "o_status ?ord2 \<noteq> o_status ord" by simp
  let ?saved = "?ord2\<lparr>o_statusHistory := o_statusHistory ?ord2 @
        [\<lparr>h_status = o_status ?ord2, h_note = None, h_updatedBy = None, h_timestamp = now\<rparr>]\<rparr>"
  have save: "Order_save now ord ?ord2 st =
                (?saved, st\<lparr>orders := replaceOrder ?saved (orders st)\<rparr>)"
    by (rule Order_save_new_status [OF num ch])
  have run: "updateOrderStatus now adminId orderId (Some newStatus) note trackingNumber courier st
               = (Success ?saved, st\<lparr>orders := replaceOrder ?saved (orders st)\<rparr>)"
    using found noStock
    by (simp only: updateOrderStatus_def Let_def eq save option.case fst_conv snd_conv if_False)
  have fd: "Order_findById (st\<lparr>orders := replaceOrder ?saved (orders st)\<rparr>) orderId = Some ?saved"
    using find_replaceOrder [OF mem(2), of ?saved] mem(1) by (simp add: Order_findById_def)
  have hist: "o_statusHistory ?saved = o_statusHistory ord @ [?e1, ?e2]"
    by simp
  from run fd hist show ?thesis by blast
qed

theorem updateOrderStatus_appends_two_entries_witness:
  "(ordersWellFormed paidDb \<and> Order_findById paidDb 100 = Some paidOrder
      \<and> SHIPPED \<noteq> o_status paidOrder \<and> \<not> (SHIPPED = CONFIRMED \<and> o_status paidOrder = PENDING))
   \<and> (\<exists>saved st'. updateOrderStatus 1730000003000 1 100 (Some SHIPPED) None (Some ''TRK1'') None
                      paidDb = (Success saved, st')
          \<and> Order_findById st' 100 = Some saved
          \<and> length (o_statusHistory paidOrder) = 1
          \<and> o_statusHistory saved =
               [\<lparr>h_status = CONFIRMED, h_note = None, h_updatedBy = None,
                 h_timestamp = 1730000000500\<rparr>,
                \<lparr>h_status = SHIPPED, h_note = Some ''Status changed from confirmed to shipped'',
                 h_updatedBy = Some 1, h_timestamp = 1730000003000\<rparr>,
                \<lparr>h_status = SHIPPED, h_note = None, h_updatedBy = None,
                 h_timestamp = 1730000003000\<rparr>])"
proof -
  have c: "SHIPPED \<noteq> o_status paidOrder"
    and n: "\<not> (SHIPPED = CONFIRMED \<and> o_status paidOrder = PENDING)"
    and h: "o_statusHistory paidOrder =
              [\<lparr>h_status = CONFIRMED, h_note = None, h_updatedBy = None,
                h_timestamp = 1730000000500\<rparr>]"
    and s: "o_status paidOrder = CONFIRMED"
    by (simp_all add: paidOrder_def)
  from updateOrderStatus_appends_two_entries [OF paidDb_wellFormed paidDb_find c n,
      of 1730000003000 1 None "Some ''TRK1''" None]
    paidDb_wellFormed paidDb_find c n
  show ?thesis by (simp add: h s orElse_def truthy_def)
qed


subsection \<open>The stock flag\<close>

lemma lastUnitsDb_find: "Order_findById lastUnitsDb 100 = Some exampleOrder"
  by (simp add: Order_findById_def lastUnitsDb_def pendingDb_def exampleDb_def exampleOrder_def)

lemma soldOutDb_orders: "orders soldOutDb = [paidOrder]"
  by (simp add: soldOutDb_def handlePaymentCaptured_def capturedPayload_def lastUnitsDb_find
      processSuccessfulPayment_def Order_save_def orderNumberHook_def statusHistoryHook_def
      replaceOrder_def Let_def Product_save_def stockStatusHook_def paidOrder_def)
     (simp add: exampleOrder_def lastUnitsDb_def pendingDb_def exampleDb_def productA_def
      Product_save_def stockStatusHook_def)

lemma soldOutDb_products:
  "products soldOutDb 11 = Some (productA\<lparr>p_stock_quantity := 0, p_stock_isInStock := False\<rparr>)"
  by (simp add: soldOutDb_def handlePaymentCaptured_def capturedPayload_def lastUnitsDb_find
      processSuccessfulPayment_def Order_save_def orderNumberHook_def statusHistoryHook_def
      replaceOrder_def Let_def Product_save_def stockStatusHook_def)
     (simp add: exampleOrder_def lastUnitsDb_def pendingDb_def exampleDb_def productA_def
      Product_save_def stockStatusHook_def)

lemma soldOutDb_find: "Order_findById soldOutDb 100 = Some paidOrder"
  by (simp add: Order_findById_def soldOutDb_orders) (simp add: paidOrder_def exampleOrder_def)

lemma Product_save_keeps_flags:
  assumes "\<forall>i q. ps i = Some q \<longrightarrow> stockFlagOk q" and "Product_save pid p ps = Some ps'"
  shows "\<forall>i q. ps' i = Some q \<longrightarrow> stockFlagOk q"
  using assms
  by (auto simp: Product_save_def stockStatusHook_def stockFlagOk_def split: if_splits)

lemma decrementStock_keeps_flags:
  "\<forall>i q. ps i = Some q \<longrightarrow> stockFlagOk q \<Longrightarrow> decrementStock items ps = (ps', ok) \<Longrightarrow>
   \<forall>i q. ps' i = Some q \<longrightarrow> stockFlagOk q"
proof (induction items arbitrary: ps)
  case Nil
  then show ?case by simp
next
  case (Cons item rest)
  show ?case
  proof (cases "ps (oi_productId item)")
    case None
    with Cons show ?thesis by simp
  next
    case (Some p)
    show ?thesis
    proof (cases "Product_save (oi_productId item)
                    (p\<lparr>p_stock_quantity := p_stock_quantity p - oi_quantity item\<rparr>) ps")
      case None
      with Some Cons.prems show ?thesis by simp
    next
      case (Some ps1)
      from Product_save_keeps_flags [OF Cons.prems(1) Some]
      have "\<forall>i q. ps1 i = Some q \<longrightarrow> stockFlagOk q" .
      moreover from Cons.prems(2) \<open>ps (oi_productId item) = Some p\<close> Some
      have "decrementStock rest ps1 = (ps', ok)" by simp
      ultimately show ?thesis by (rule Cons.IH)
    qed
  qed
qed

lemma restoreStock_breaks_flag:
  assumes "ps pid = Some p" and "p_stock_quantity p = 0" and "\<not> p_stock_isInStock p"
    and "0 < orderedQuantity items pid"
  shows "\<exists>q. restoreStock items ps pid = Some q \<and> \<not> stockFlagOk q"
  using assms by (simp add: restoreStock_apply stockFlagOk_def)

lemma restoreStock_keeps_flag:
  "map_option p_stock_isInStock (restoreStock items ps pid) = map_option p_stock_isInStock (ps pid)"
  by (cases "ps pid") (simp_all add: restoreStock_apply)

text \<open>
  Claim C9, evaluated after a refund and after a cancellation. With two units in stock,
  the payment of the two-unit example order leaves quantity 0 and \<open>isInStock\<close> false
  (the flag is right: the stock loop saves the product, and the hook runs). The refund
  of the administrator, and likewise the cancellation by the customer, restore the
  quantity to 2 with \<open>findByIdAndUpdate\<close>, which runs no hook: \<open>isInStock\<close> stays
  false although the quantity is positive.
\<close>

theorem refund_and_cancel_leave_stock_flag_stale:
  "stockFlagOk (the (products lastUnitsDb 11))
   \<and> stockFlagOk (the (products soldOutDb 11))
   \<and> p_stock_quantity (the (products soldOutDb 11)) = 0
   \<and> (\<exists>ord st'. initiateRefund exampleEnv 1730000001000 100 None soldOutDb = (Success ord, st')
          \<and> p_stock_quantity (the (products st' 11)) = 2
          \<and> \<not> p_stock_isInStock (the (products st' 11))
          \<and> \<not> stockFlagOk (the (products st' 11)))
   \<and> (\<exists>ord st'. cancelOrder 1730000001000 7 100 None soldOutDb = (Success ord, st')
          \<and> p_stock_quantity (the (products st' 11)) = 2
          \<and> \<not> p_stock_isInStock (the (products st' 11))
          \<and> \<not> stockFlagOk (the (products st' 11)))"
proof -
  have a: "stockFlagOk (the (products lastUnitsDb 11))"
    by (simp add: stockFlagOk_def lastUnitsDb_def productA_def)
  have b: "stockFlagOk (the (products soldOutDb 11))"
    "p_stock_quantity (the (products soldOutDb 11)) = 0"
    by (simp_all add: stockFlagOk_def soldOutDb_products)
  have i: "o_items paidOrder = [\<lparr>oi_productId = 11, oi_name = ''productA'', oi_quantity = 2,
             oi_price = 1000, oi_weight = 10\<rparr>]"
    and n: "o_orderNumber paidOrder \<noteq> []"
    and p: "pay_status (o_payment paidOrder) = PAY_COMPLETED"
      "pay_razorpayPaymentId (o_payment paidOrder) = Some ''pay_1''"
    and u: "o_userId paidOrder = 7" and s: "o_status paidOrder = CONFIRMED"
    by (simp_all add: paidOrder_def exampleOrder_def)
  have r: "\<exists>ord st'. initiateRefund exampleEnv 1730000001000 100 None soldOutDb = (Success ord, st')
          \<and> p_stock_quantity (the (products st' 11)) = 2
          \<and> \<not> p_stock_isInStock (the (products st' 11))
          \<and> \<not> stockFlagOk (the (products st' 11))"
    using n by (simp add: initiateRefund_def soldOutDb_find p truthy_def exampleEnv_def Let_def
        Order_save_def orderNumberHook_def statusHistoryHook_def i soldOutDb_products
        Product_findByIdAndUpdate_inc_def stockFlagOk_def)
  have c: "\<exists>ord st'. cancelOrder 1730000001000 7 100 None soldOutDb = (Success ord, st')
          \<and> p_stock_quantity (the (products st' 11)) = 2
          \<and> \<not> p_stock_isInStock (the (products st' 11))
          \<and> \<not> stockFlagOk (the (products st' 11))"
    using n by (simp add: cancelOrder_def soldOutDb_find p u s Let_def
        Order_save_def orderNumberHook_def statusHistoryHook_def i soldOutDb_products
        Product_findByIdAndUpdate_inc_def stockFlagOk_def)
  from a b r c show ?thesis by blast
qed

subsection \<open>Order numbers\<close>




lemma toString_nonempty: "toString n \<noteq> []"
  by (subst toString.simps) simp











subsection \<open>The webhook signature\<close>

lemma joinComma_length:
  "\<forall>x \<in> set xs. x \<noteq> [] \<Longrightarrow> length xs \<le> length (joinComma xs)"
proof (induction xs rule: joinComma.induct)
  case 1
  show ?case by simp
next
  case (2 x)
  then show ?case by (cases x) simp_all
next
  case (3 x y rest)
  then have "length (y # rest) \<le> length (joinComma (y # rest))" by simp
  then show ?case by simp
qed

lemma Buffer_stringify_longer: "length bytes < length (Buffer_stringify bytes)"
proof -
  have "length (map (\<lambda>c. toString (of_char c)) bytes)
          \<le> length (joinComma (map (\<lambda>c. toString (of_char c)) bytes))"
    by (rule joinComma_length) (simp add: toString_nonempty)
  then show ?thesis by (simp add: Buffer_stringify_def)
qed

lemma Buffer_stringify_differs: "Buffer_stringify bytes \<noteq> bytes"
  using Buffer_stringify_longer [of bytes] by auto

lemma webhook_body_is_raw:
  "rq_body (webhookRouteMiddleware e (incoming bytes)) = Some (RawBuffer bytes)"
  by (simp add: webhookRouteMiddleware_def express_raw_def express_json_def incoming_def)

lemma genuine_signature_rejected:
  assumes "inj (hmacSha256Hex e (RAZORPAY_WEBHOOK_SECRET e))"
  shows "\<not> verifyWebhookSignature e (RawBuffer bytes)
            (hmacSha256Hex e (RAZORPAY_WEBHOOK_SECRET e) bytes)"
  using assms Buffer_stringify_differs [of bytes]
  by (auto simp: verifyWebhookSignature_def stringifyBody_def dest: injD)

lemma handleWebhook_raw_never_dispatches:
  "\<exists>err. handleWebhook e now (RawBuffer bytes) webhookSignature st = (Failure err, st)"
  by (simp add: handleWebhook_def)

lemma Buffer_stringify_example:
  "Buffer_stringify ''{}'' = ''{\"type\":\"Buffer\",\"data\":[123,125]}''"
  by (simp add: Buffer_stringify_def toString.simps digitChar_def)

text \<open>
  Claim C4, on the code. The middleware in front of the webhook route hands the handler
  the raw bytes as a Buffer. \<open>verifyWebhookSignature\<close> then compares the header with the
  keyed hash of \<open>JSON.stringify\<close> of that Buffer, which is never the raw body: for the
  body \<open>{}\<close> the hashed text is the JSON of the object with the type Buffer and the data
  123, 125. In the example environment the signature of the raw body \<open>{}\<close> is rejected.
\<close>

theorem webhook_signature_is_over_stringified_buffer:
  "rq_body (webhookRouteMiddleware e (incoming bytes)) = Some (RawBuffer bytes)
   \<and> verifyWebhookSignature e (RawBuffer bytes) webhookSignature
       = (hmacSha256Hex e (RAZORPAY_WEBHOOK_SECRET e) (Buffer_stringify bytes) = webhookSignature)
   \<and> Buffer_stringify bytes \<noteq> bytes
   \<and> Buffer_stringify ''{}'' = ''{\"type\":\"Buffer\",\"data\":[123,125]}''
   \<and> \<not> verifyWebhookSignature exampleEnv (RawBuffer ''{}'')
          (hmacSha256Hex exampleEnv (RAZORPAY_WEBHOOK_SECRET exampleEnv) ''{}'')"
proof -
  have "\<not> verifyWebhookSignature exampleEnv (RawBuffer ''{}'')
          (hmacSha256Hex exampleEnv (RAZORPAY_WEBHOOK_SECRET exampleEnv) ''{}'')"
    by (simp add: verifyWebhookSignature_def stringifyBody_def Buffer_stringify_example
        exampleEnv_def)
  then show ?thesis
    by (simp add: webhook_body_is_raw Buffer_stringify_differs Buffer_stringify_example)
       (simp add: verifyWebhookSignature_def stringifyBody_def)
qed

end
